theory Spec2Isabelle
  imports Complex_Main
begin

section \<open>Data model of \<^verbatim>\<open>src/index.ts\<close>\<close>

text \<open>
  The program is a Hono application whose \<^verbatim>\<open>POST /webhook\<close> handler buffers
  transcript fragments per session, flushes them to a vector store and answers recall
  questions from timer callbacks. The embedding follows the source:

  \<^item> \<^verbatim>\<open>MessageBuffer\<close> objects live on a heap of objects addressed by natural
    numbers; a variable holding a buffer (the handler's \<^verbatim>\<open>buffer\<close>, captured by the
    timer closures) is an address, so writes through one reference are seen through
    every other one.
  \<^item> \<^verbatim>\<open>MemoryManager\<close> objects are heap objects as well; their only mutable field
    that the handler reads is \<^verbatim>\<open>buffers\<close>, the registry from session id to buffer.
  \<^item> \<^verbatim>\<open>Date.now()\<close> is the parameter \<open>now\<close> (milliseconds, an integer) of each
    handler run and each timer firing.
  \<^item> The OpenAI and Chroma clients are external: every request they are sent is
    appended to the log \<open>calls\<close>, and what they answer is read from a record of
    \<open>providers\<close>, each a function of the log up to and including the request, so any
    sequence of answers and failures can be supplied.
  \<^item> An exception is the \<open>Inl\<close> branch of a result; the state reached when it was
    thrown is returned with it.
  \<^item> \<^verbatim>\<open>setTimeout\<close> appends a timer to \<open>pending\<close>; a timer is fired by an event of
    the event loop at a time not before it is due.
  \<^item> A handler run or a callback run is one atomic step: the suspension points at
    \<^verbatim>\<open>await\<close> are not interleaved with other steps.
  \<^item> Strings are lists of 8-bit characters, read as the code points U+0000 to U+00FF;
    \<^verbatim>\<open>toLowerCase\<close> lower-cases the cased letters among them.
  \<^item> The registry \<^verbatim>\<open>buffers\<close> is an object literal: a lookup answers the object's own
    entries first and then the properties every object inherits from
    \<^verbatim>\<open>Object.prototype\<close>. The own entries are a map; the inherited names are the list
    \<open>OBJECT_PROTOTYPE_KEYS\<close>, and what they hold is a value that is not a buffer.
\<close>

type_synonym sessionId = string
type_synonym addr = nat
type_synonym embedding = "rat list"

record MessageBuffer =
  messages :: "string list"
  triggerDetected :: bool
  triggerTime :: int
  collectedQuestion :: "string list"
  responseSent :: bool
  partialTrigger :: bool
  partialTriggerTime :: int
  lastActivity :: int

record MemoryManager =
  buffers :: "sessionId \<rightharpoonup> addr"

datatype error = OpenAIError | ChromaError | TypeError

text \<open>What a lookup in the registry returns when it is truthy: a reference to a
  \<^verbatim>\<open>MessageBuffer\<close>, or a member of \<^verbatim>\<open>Object.prototype\<close> (a function, or the prototype
  itself), which has none of the buffer's fields.\<close>

datatype reference = BufferRef addr | PrototypeMember

text \<open>The part of Chroma's query response the handler reads: \<^verbatim>\<open>documents\<close> (one
  list per query embedding) and \<^verbatim>\<open>distances\<close> (which the client types as nullable).\<close>

record QueryResponse =
  documents :: "string list list"
  distances :: "rat list list option"

datatype call =
    EmbeddingsCreate string
  | CollectionAdd embedding sessionId string
  | CollectionQuery embedding sessionId
  | ChatCompletion string string

record providers =
  embeddings_create :: "call list \<Rightarrow> error + embedding"
  collection_add :: "call list \<Rightarrow> error + unit"
  collection_query :: "call list \<Rightarrow> error + QueryResponse"
  chat_completions_create :: "call list \<Rightarrow> error + string"

text \<open>The closures handed to \<^verbatim>\<open>setTimeout\<close>, with the variables they capture: the
  recall callback captures \<^verbatim>\<open>memoryManager\<close>, \<^verbatim>\<open>buffer\<close> and \<^verbatim>\<open>sessionId\<close>, the
  reaper captures \<^verbatim>\<open>memoryManager\<close> and \<^verbatim>\<open>sessionId\<close>.\<close>

datatype callback =
    RecallCallback nat addr sessionId
  | ReaperCallback nat sessionId

record timer =
  due :: int
  callback :: callback

record runtime =
  heap :: "addr \<Rightarrow> MessageBuffer"
  nextAddr :: addr
  managers :: "nat \<Rightarrow> MemoryManager"
  nextManager :: nat
  pending :: "timer list"
  calls :: "call list"
  memory_store :: "(string \<times> sessionId) list"

section \<open>Constants\<close>

definition TRIGGER_PHRASES :: "string list" where
  "TRIGGER_PHRASES = [''forgot'', ''don't remember'']"

text \<open>The literal \<^verbatim>\<open>0.4\<close> is the double nearest to 4/10, whose exact value is
  3602879701896397 / 2^53. Distances are doubles too, and \<^verbatim>\<open><=\<close> on finite doubles
  is the order of the rationals they denote.\<close>

definition SIMILARITY_THRESHOLD :: rat where
  "SIMILARITY_THRESHOLD = 3602879701896397 / 9007199254740992"

text \<open>The property names of \<^verbatim>\<open>Object.prototype\<close>, which the registry \<^verbatim>\<open>{}\<close>
  inherits. They belong to the language, not to the source file; each holds a truthy
  value.\<close>

definition OBJECT_PROTOTYPE_KEYS :: "string list" where
  "OBJECT_PROTOTYPE_KEYS =
     [''constructor'', ''__proto__'', ''hasOwnProperty'', ''isPrototypeOf'',
      ''propertyIsEnumerable'', ''toLocaleString'', ''toString'', ''valueOf'',
      ''__defineGetter__'', ''__defineSetter__'', ''__lookupGetter__'', ''__lookupSetter__'']"

definition BUFFER_TIMEOUT :: int where
  "BUFFER_TIMEOUT = 5000"

definition QUESTION_COLLECTION_TIMEOUT :: int where
  "QUESTION_COLLECTION_TIMEOUT = 2000"

section \<open>String operations\<close>

text \<open>\<^verbatim>\<open>String.prototype.toLowerCase\<close> on one code point below U+0100: the upper-case
  letters are A to Z (65 to 90) and U+00C0 to U+00DE without the multiplication sign
  U+00D7; each has its lower-case letter 32 places up.\<close>

definition toLowerChar :: "char \<Rightarrow> char" where
  "toLowerChar c =
     (let n = (of_char c :: nat) in
      if (65 \<le> n \<and> n \<le> 90) \<or> (192 \<le> n \<and> n \<le> 222 \<and> n \<noteq> 215)
      then char_of (n + 32) else c)"

definition toLowerCase :: "string \<Rightarrow> string" where
  "toLowerCase text = map toLowerChar text"

text \<open>\<^verbatim>\<open>Array.prototype.join\<close>.\<close>

fun join :: "string \<Rightarrow> string list \<Rightarrow> string" where
  "join sep [] = []"
| "join sep [x] = x"
| "join sep (x # y # ys) = x @ sep @ join sep (y # ys)"

fun startsWith :: "string \<Rightarrow> string \<Rightarrow> bool" where
  "startsWith text [] = True"
| "startsWith [] (p # ps) = False"
| "startsWith (c # cs) (p # ps) = (c = p \<and> startsWith cs ps)"

text \<open>\<^verbatim>\<open>String.prototype.includes\<close>: the phrase occurs at some position.\<close>

fun includesStr :: "string \<Rightarrow> string \<Rightarrow> bool" where
  "includesStr [] phrase = (phrase = [])"
| "includesStr (c # cs) phrase = (startsWith (c # cs) phrase \<or> includesStr cs phrase)"

text \<open>\<^verbatim>\<open>text.match(/[.!?]$/)\<close>: without the \<^verbatim>\<open>m\<close> flag, \<^verbatim>\<open>$\<close> is the end of the
  string, so the last character is one of the three marks.\<close>

definition endsSentence :: "string \<Rightarrow> bool" where
  "endsSentence text =
     (text \<noteq> [] \<and> (last text = CHR ''.'' \<or> last text = CHR ''!'' \<or> last text = CHR ''?''))"

text \<open>\<^verbatim>\<open>TRIGGER_PHRASES.some(phrase => text.includes(phrase))\<close>.\<close>

definition hasTriggerPhrase :: "string \<Rightarrow> bool" where
  "hasTriggerPhrase text = list_ex (\<lambda>phrase. includesStr text phrase) TRIGGER_PHRASES"

section \<open>The class \<^verbatim>\<open>MemoryManager\<close>\<close>

definition newBuffer :: "int \<Rightarrow> MessageBuffer" where
  "newBuffer now =
     \<lparr>messages = [], triggerDetected = False, triggerTime = 0, collectedQuestion = [],
      responseSent = False, partialTrigger = False, partialTriggerTime = 0,
      lastActivity = now\<rparr>"

text \<open>An assignment to a field of the buffer object at address \<open>a\<close>.\<close>

definition updateBuffer :: "addr \<Rightarrow> (MessageBuffer \<Rightarrow> MessageBuffer) \<Rightarrow> runtime \<Rightarrow> runtime" where
  "updateBuffer a f s = s\<lparr>heap := (heap s)(a := f (heap s a))\<rparr>"

text \<open>\<^verbatim>\<open>new MemoryManager(env)\<close>: a new object with \<^verbatim>\<open>buffers = {}\<close>. The clients it
  builds, and the collection handle the un-awaited \<^verbatim>\<open>initializeChroma()\<close> fetches, belong
  to the providers.\<close>

definition newMemoryManager :: "runtime \<Rightarrow> runtime \<times> nat" where
  "newMemoryManager s =
     (let mr = nextManager s in
      (s\<lparr>managers := (managers s)(mr := \<lparr>buffers = Map.empty\<rparr>), nextManager := Suc mr\<rparr>, mr))"

text \<open>\<^verbatim>\<open>this.buffers[sessionId]\<close> is the own entry when there is one, else the inherited
  property when the name is one of \<^verbatim>\<open>Object.prototype\<close>'s, else \<^verbatim>\<open>undefined\<close>. An
  inherited property is truthy: line 93 then creates nothing and line 105 returns it.\<close>

definition getBuffer :: "int \<Rightarrow> nat \<Rightarrow> sessionId \<Rightarrow> runtime \<Rightarrow> runtime \<times> reference" where
  "getBuffer now mr sessionId s =
     (case buffers (managers s mr) sessionId of
        Some a \<Rightarrow> (s, BufferRef a)
      | None \<Rightarrow>
          if sessionId \<in> set OBJECT_PROTOTYPE_KEYS then (s, PrototypeMember)
          else
            (let a = nextAddr s in
             (s\<lparr>heap := (heap s)(a := newBuffer now),
                nextAddr := Suc a,
                managers := (managers s)
                  (mr := (managers s mr)\<lparr>buffers := (buffers (managers s mr))(sessionId \<mapsto> a)\<rparr>)\<rparr>,
              BufferRef a)))"

text \<open>\<^verbatim>\<open>getEmbedding\<close> is one request to the embeddings endpoint. In \<^verbatim>\<open>saveMemory\<close> and
  \<^verbatim>\<open>searchMemories\<close> the awaited \<^verbatim>\<open>initializeChroma()\<close> (run when the collection handle
  is not there yet) and the request to the collection are one request to Chroma: a
  failure of either is a failure of \<open>collection_add\<close> or \<open>collection_query\<close>. A
  successful add appends the document and its session id to \<open>memory_store\<close>; the ids,
  timestamps and the \<^verbatim>\<open>nResults\<close> of the requests are not recorded.\<close>

definition getEmbedding :: "providers \<Rightarrow> string \<Rightarrow> runtime \<Rightarrow> runtime \<times> (error + embedding)" where
  "getEmbedding p text s =
     (let log = calls s @ [EmbeddingsCreate text] in
      (s\<lparr>calls := log\<rparr>, embeddings_create p log))"

definition saveMemory :: "providers \<Rightarrow> string \<Rightarrow> sessionId \<Rightarrow> runtime \<Rightarrow> runtime \<times> (error + unit)" where
  "saveMemory p text sessionId s =
     (case getEmbedding p text s of
        (s1, Inl e) \<Rightarrow> (s1, Inl e)
      | (s1, Inr embedding) \<Rightarrow>
          (let log = calls s1 @ [CollectionAdd embedding sessionId text] in
           (case collection_add p log of
              Inl e \<Rightarrow> (s1\<lparr>calls := log\<rparr>, Inl e)
            | Inr u \<Rightarrow>
                (s1\<lparr>calls := log, memory_store := memory_store s1 @ [(text, sessionId)]\<rparr>,
                 Inr ()))))"

definition searchMemories ::
  "providers \<Rightarrow> string \<Rightarrow> sessionId \<Rightarrow> runtime \<Rightarrow> runtime \<times> (error + QueryResponse)" where
  "searchMemories p query sessionId s =
     (case getEmbedding p query s of
        (s1, Inl e) \<Rightarrow> (s1, Inl e)
      | (s1, Inr queryEmbedding) \<Rightarrow>
          (let log = calls s1 @ [CollectionQuery queryEmbedding sessionId] in
           (s1\<lparr>calls := log\<rparr>, collection_query p log)))"

text \<open>The result is the text the caller reads from the completion,
  \<^verbatim>\<open>response.choices[0].message.content\<close>.\<close>

definition generateResponse ::
  "providers \<Rightarrow> string \<Rightarrow> string \<Rightarrow> runtime \<Rightarrow> runtime \<times> (error + string)" where
  "generateResponse p query context s =
     (let log = calls s @ [ChatCompletion query context] in
      (s\<lparr>calls := log\<rparr>, chat_completions_create p log))"

text \<open>On a value that is not a buffer, \<^verbatim>\<open>buffer.messages\<close> is \<^verbatim>\<open>undefined\<close> and reading its
  \<^verbatim>\<open>length\<close> (line 110) throws.\<close>

definition processBuffer ::
  "providers \<Rightarrow> int \<Rightarrow> nat \<Rightarrow> sessionId \<Rightarrow> runtime \<Rightarrow> runtime \<times> (error + unit)" where
  "processBuffer p now mr sessionId s =
     (case getBuffer now mr sessionId s of
        (s1, PrototypeMember) \<Rightarrow> (s1, Inl TypeError)
      | (s1, BufferRef a) \<Rightarrow>
          if length (messages (heap s1 a)) > 0 then
            (let fullText = join '' '' (messages (heap s1 a)) in
             (case saveMemory p fullText sessionId s1 of
                (s2, Inl e) \<Rightarrow> (s2, Inl e)
              | (s2, Inr u) \<Rightarrow> (updateBuffer a (\<lambda>b. b\<lparr>messages := []\<rparr>) s2, Inr ())))
          else (s1, Inr ()))"

section \<open>The handler of \<^verbatim>\<open>POST /webhook\<close> and its timer callbacks\<close>

record webhook_data =
  session_id :: "sessionId option"
  segments :: "string list option"

text \<open>What \<^verbatim>\<open>c.json\<close> builds: \<^verbatim>\<open>{error}\<close> with a status code, \<^verbatim>\<open>{status}\<close>,
  \<^verbatim>\<open>{message}\<close>.\<close>

datatype response =
    ErrorResponse string nat
  | StatusResponse string
  | MessageResponse string

definition setTimeout :: "callback \<Rightarrow> int \<Rightarrow> int \<Rightarrow> runtime \<Rightarrow> runtime" where
  "setTimeout cb delay now s = s\<lparr>pending := pending s @ [\<lparr>due = now + delay, callback = cb\<rparr>]\<rparr>"

text \<open>\<^verbatim>\<open>searchResults?.documents?.[0]\<close> and \<^verbatim>\<open>searchResults?.distances?.[0]?.[0]\<close>;
  \<open>None\<close> is \<^verbatim>\<open>undefined\<close>.\<close>

definition firstDocuments :: "QueryResponse \<Rightarrow> string list option" where
  "firstDocuments r = (case documents r of [] \<Rightarrow> None | docs # rest \<Rightarrow> Some docs)"

definition bestDistance :: "QueryResponse \<Rightarrow> rat option" where
  "bestDistance r =
     (case distances r of
        None \<Rightarrow> None
      | Some [] \<Rightarrow> None
      | Some ([] # rest) \<Rightarrow> None
      | Some ((d # ds) # rest) \<Rightarrow> Some d)"

text \<open>\<^verbatim>\<open>x <= SIMILARITY_THRESHOLD\<close>, false when \<open>x\<close> is \<^verbatim>\<open>undefined\<close>.\<close>

definition withinThreshold :: "rat option \<Rightarrow> bool" where
  "withinThreshold x = (case x of None \<Rightarrow> False | Some d \<Rightarrow> d \<le> SIMILARITY_THRESHOLD)"

definition NOTHING_REMEMBERED :: string where
  "NOTHING_REMEMBERED = ''I don't remember anything about that. sorry!''"

text \<open>The callback of lines 257 to 282. An array is truthy even when empty, so the first
  conjunct of line 263 asks only that \<^verbatim>\<open>documents[0]\<close> exists. The value the
  callback returns is the response it delivers; \<open>None\<close> is a return without one.\<close>

definition recallCallback ::
  "providers \<Rightarrow> nat \<Rightarrow> addr \<Rightarrow> sessionId \<Rightarrow> runtime \<Rightarrow> runtime \<times> (error + response option)" where
  "recallCallback p mr a sessionId s =
     (if triggerDetected (heap s a) \<and> \<not> responseSent (heap s a) then
        (let fullQuestion = join '' '' (collectedQuestion (heap s a)) in
         (case searchMemories p fullQuestion sessionId s of
            (s1, Inl e) \<Rightarrow> (s1, Inl e)
          | (s1, Inr searchResults) \<Rightarrow>
              (let rejected =
                     (updateBuffer a (\<lambda>b. b\<lparr>triggerDetected := False, collectedQuestion := []\<rparr>) s1,
                      Inr None) in
               (case firstDocuments searchResults of
                  None \<Rightarrow> rejected
                | Some docs \<Rightarrow>
                    if withinThreshold (bestDistance searchResults) then
                      (if length docs = 0 then
                         (updateBuffer a (\<lambda>b. b\<lparr>responseSent := True\<rparr>) s1,
                          Inr (Some (MessageResponse NOTHING_REMEMBERED)))
                       else
                         (let context = join [CHR 0x0A] docs in
                          (case generateResponse p fullQuestion context s1 of
                             (s2, Inl e) \<Rightarrow> (s2, Inl e)
                           | (s2, Inr content) \<Rightarrow>
                               (updateBuffer a (\<lambda>b. b\<lparr>responseSent := True\<rparr>) s2,
                                Inr (Some (MessageResponse content))))))
                    else rejected))))
      else (s, Inr None))"

text \<open>Lines 250 to 286: the check for a recall question, run for every segment.\<close>

definition checkRecallQuestion ::
  "int \<Rightarrow> nat \<Rightarrow> addr \<Rightarrow> sessionId \<Rightarrow> string \<Rightarrow> runtime \<Rightarrow> runtime" where
  "checkRecallQuestion now mr a sessionId text s =
     (if hasTriggerPhrase text then
        (if \<not> triggerDetected (heap s a) then
           setTimeout (RecallCallback mr a sessionId) QUESTION_COLLECTION_TIMEOUT now
             (updateBuffer a
                (\<lambda>b. b\<lparr>triggerDetected := True, triggerTime := now, collectedQuestion := [text]\<rparr>) s)
         else updateBuffer a (\<lambda>b. b\<lparr>collectedQuestion := collectedQuestion b @ [text]\<rparr>) s)
      else s)"

text \<open>The body of the loop of lines 239 to 287 when \<^verbatim>\<open>buffer\<close> is the buffer at address
  \<open>a\<close>; \<open>n\<close> is \<^verbatim>\<open>segments.length\<close>.\<close>

definition processSegment ::
  "providers \<Rightarrow> int \<Rightarrow> nat \<Rightarrow> addr \<Rightarrow> sessionId \<Rightarrow> nat \<Rightarrow> string \<Rightarrow> runtime
     \<Rightarrow> runtime \<times> (error + unit)" where
  "processSegment p now mr a sessionId n segment s =
     (let text = toLowerCase segment;
          s1 = updateBuffer a (\<lambda>b. b\<lparr>messages := messages b @ [text], lastActivity := now\<rparr>) s
      in
        if endsSentence text \<or> (n = 1 \<and> length text > 50) then
          (case processBuffer p now mr sessionId s1 of
             (s2, Inl e) \<Rightarrow> (s2, Inl e)
           | (s2, Inr u) \<Rightarrow> (checkRecallQuestion now mr a sessionId text s2, Inr ()))
        else (checkRecallQuestion now mr a sessionId text s1, Inr ()))"

text \<open>The loop. When \<^verbatim>\<open>buffer\<close> is not a buffer, \<^verbatim>\<open>buffer.messages\<close> is \<^verbatim>\<open>undefined\<close>
  and the \<^verbatim>\<open>push\<close> of line 241 throws in the first iteration.\<close>

fun processSegments ::
  "providers \<Rightarrow> int \<Rightarrow> nat \<Rightarrow> reference \<Rightarrow> sessionId \<Rightarrow> nat \<Rightarrow> string list \<Rightarrow> runtime
     \<Rightarrow> runtime \<times> (error + unit)" where
  "processSegments p now mr buffer sessionId n [] s = (s, Inr ())"
| "processSegments p now mr PrototypeMember sessionId n (segment # rest) s = (s, Inl TypeError)"
| "processSegments p now mr (BufferRef a) sessionId n (segment # rest) s =
     (case processSegment p now mr a sessionId n segment s of
        (s1, Inl e) \<Rightarrow> (s1, Inl e)
      | (s1, Inr u) \<Rightarrow> processSegments p now mr (BufferRef a) sessionId n rest s1)"

text \<open>The reaper of lines 290 to 295. On a value that is not a buffer,
  \<^verbatim>\<open>buffer.lastActivity\<close> is \<^verbatim>\<open>undefined\<close>, the difference is \<^verbatim>\<open>NaN\<close> and the
  comparison of line 292 is false.\<close>

definition reaperCallback ::
  "providers \<Rightarrow> int \<Rightarrow> nat \<Rightarrow> sessionId \<Rightarrow> runtime \<Rightarrow> runtime \<times> (error + unit)" where
  "reaperCallback p now mr sessionId s =
     (case getBuffer now mr sessionId s of
        (s1, PrototypeMember) \<Rightarrow> (s1, Inr ())
      | (s1, BufferRef a) \<Rightarrow>
          if now - lastActivity (heap s1 a) \<ge> BUFFER_TIMEOUT then
            processBuffer p now mr sessionId s1
          else (s1, Inr ()))"

text \<open>The handler. \<^verbatim>\<open>!sessionId\<close> holds for a missing id and for the empty string. The
  manager is built by the handler itself, on every request (line 234).\<close>

definition webhook ::
  "providers \<Rightarrow> int \<Rightarrow> webhook_data \<Rightarrow> runtime \<Rightarrow> runtime \<times> (error + response)" where
  "webhook p now data s =
     (case session_id data of
        None \<Rightarrow> (s, Inr (ErrorResponse ''No session ID provided'' 400))
      | Some sessionId \<Rightarrow>
          if sessionId = [] then (s, Inr (ErrorResponse ''No session ID provided'' 400))
          else
            (case newMemoryManager s of
               (s1, memoryManager) \<Rightarrow>
                 (let segs = (case segments data of None \<Rightarrow> [] | Some xs \<Rightarrow> xs) in
                  (case getBuffer now memoryManager sessionId s1 of
                     (s2, buffer) \<Rightarrow>
                       (case processSegments p now memoryManager buffer sessionId
                               (length segs) segs s2 of
                          (s3, Inl e) \<Rightarrow> (s3, Inl e)
                        | (s3, Inr u) \<Rightarrow>
                            (setTimeout (ReaperCallback memoryManager sessionId)
                               BUFFER_TIMEOUT now s3,
                             Inr (StatusResponse ''success'')))))))"

section \<open>The event loop\<close>

text \<open>A request arrives at a time, or the pending timer at an index fires at a time not
  before it is due. A fired timer leaves \<open>pending\<close>; no timer is ever cancelled.\<close>

datatype event =
    Post int webhook_data
  | Timeout int nat

definition runCallback :: "providers \<Rightarrow> int \<Rightarrow> callback \<Rightarrow> runtime \<Rightarrow> runtime" where
  "runCallback p now cb s =
     (case cb of
        RecallCallback mr a sessionId \<Rightarrow> fst (recallCallback p mr a sessionId s)
      | ReaperCallback mr sessionId \<Rightarrow> fst (reaperCallback p now mr sessionId s))"

definition step :: "providers \<Rightarrow> event \<Rightarrow> runtime \<Rightarrow> runtime" where
  "step p ev s =
     (case ev of
        Post now data \<Rightarrow> fst (webhook p now data s)
      | Timeout now i \<Rightarrow>
          if i < length (pending s) \<and> due (pending s ! i) \<le> now then
            runCallback p now (callback (pending s ! i))
              (s\<lparr>pending := take i (pending s) @ drop (Suc i) (pending s)\<rparr>)
          else s)"

fun run :: "providers \<Rightarrow> event list \<Rightarrow> runtime \<Rightarrow> runtime" where
  "run p [] s = s"
| "run p (ev # evs) s = run p evs (step p ev s)"

text \<open>The state of a process that has just started.\<close>

definition initial :: runtime where
  "initial =
     \<lparr>heap = (\<lambda>a. newBuffer 0), nextAddr = 0,
      managers = (\<lambda>mr. \<lparr>buffers = Map.empty\<rparr>), nextManager = 0,
      pending = [], calls = [], memory_store = []\<rparr>"

text \<open>Providers for concrete runs: one that answers every request, and one whose
  embedding call fails.\<close>

definition answering :: "QueryResponse \<Rightarrow> string \<Rightarrow> providers" where
  "answering r content =
     \<lparr>embeddings_create = (\<lambda>log. Inr []), collection_add = (\<lambda>log. Inr ()),
      collection_query = (\<lambda>log. Inr r), chat_completions_create = (\<lambda>log. Inr content)\<rparr>"

definition failing :: providers where
  "failing =
     \<lparr>embeddings_create = (\<lambda>log. Inl OpenAIError), collection_add = (\<lambda>log. Inl ChromaError),
      collection_query = (\<lambda>log. Inl ChromaError),
      chat_completions_create = (\<lambda>log. Inl OpenAIError)\<rparr>"

text \<open>Line 263 of the recall callback: whether the best match is accepted.\<close>

definition bestMatchAccepted :: "QueryResponse \<Rightarrow> bool" where
  "bestMatchAccepted r = (firstDocuments r \<noteq> None \<and> withinThreshold (bestDistance r))"

text \<open>Whether a callback's outcome is a delivered response.\<close>

definition delivered :: "error + response option \<Rightarrow> bool" where
  "delivered out = (case out of Inr (Some m) \<Rightarrow> True | Inr None \<Rightarrow> False | Inl e \<Rightarrow> False)"

section \<open>Concrete inputs\<close>

definition request :: "sessionId \<Rightarrow> string list \<Rightarrow> webhook_data" where
  "request sessionId texts = \<lparr>session_id = Some sessionId, segments = Some texts\<rparr>"

definition noResults :: QueryResponse where
  "noResults = \<lparr>documents = [], distances = None\<rparr>"

text \<open>A query response with one document at the given distance.\<close>

definition oneMatch :: "string \<Rightarrow> rat \<Rightarrow> QueryResponse" where
  "oneMatch doc d = \<lparr>documents = [[doc]], distances = Some [[d]]\<rparr>"

text \<open>A query response with a distance and an empty document list.\<close>

definition distanceOnly :: "rat \<Rightarrow> QueryResponse" where
  "distanceOnly d = \<lparr>documents = [[]], distances = Some [[d]]\<rparr>"


text \<open>States reached from \<open>initial\<close> by one request of session \<open>s\<close>: with the fragment
  "hello" pending, after the flush of "hello.", and with a recall window open.\<close>

definition afterHello :: runtime where
  "afterHello = run (answering noResults ''ok'') [Post 0 (request ''s'' [''hello''])] initial"

definition afterFlush :: runtime where
  "afterFlush = run (answering noResults ''ok'') [Post 0 (request ''s'' [''hello.''])] initial"

definition windowOpen :: runtime where
  "windowOpen = run (answering noResults ''ok'') [Post 0 (request ''s'' [''i forgot''])] initial"

section \<open>Frame lemmas for the external calls\<close>

lemma getBuffer_existing:
  "buffers (managers s mr) sessionId = Some a \<Longrightarrow>
   getBuffer now mr sessionId s = (s, BufferRef a)"
  by (simp add: getBuffer_def)

lemma saveMemory_frame:
  assumes "saveMemory p text sessionId s = (s1, r)"
  shows "heap s1 = heap s \<and> managers s1 = managers s \<and> pending s1 = pending s \<and>
         nextAddr s1 = nextAddr s \<and> nextManager s1 = nextManager s"
  using assms
  by (auto simp: saveMemory_def getEmbedding_def Let_def split: sum.splits)

lemma saveMemory_log:
  assumes "saveMemory p text sessionId s = (s1, r)"
  shows "calls s1 = calls s @ [EmbeddingsCreate text] \<or>
         (\<exists>v. calls s1 = calls s @ [EmbeddingsCreate text, CollectionAdd v sessionId text])"
  using assms
  by (auto simp: saveMemory_def getEmbedding_def Let_def split: sum.splits)

lemma saveMemory_store:
  assumes "saveMemory p text sessionId s = (s1, r)"
  shows "memory_store s1 =
           (case r of Inl e \<Rightarrow> memory_store s | Inr u \<Rightarrow> memory_store s @ [(text, sessionId)])"
  using assms
  by (auto simp: saveMemory_def getEmbedding_def Let_def split: sum.splits)

lemma searchMemories_frame:
  assumes "searchMemories p query sessionId s = (s1, r)"
  shows "heap s1 = heap s \<and> managers s1 = managers s \<and> pending s1 = pending s \<and>
         nextAddr s1 = nextAddr s \<and> nextManager s1 = nextManager s \<and>
         memory_store s1 = memory_store s"
  using assms
  by (auto simp: searchMemories_def getEmbedding_def Let_def split: sum.splits)

lemma generateResponse_frame:
  assumes "generateResponse p query context s = (s1, r)"
  shows "heap s1 = heap s \<and> managers s1 = managers s \<and> pending s1 = pending s \<and>
         nextAddr s1 = nextAddr s \<and> nextManager s1 = nextManager s \<and>
         memory_store s1 = memory_store s"
  using assms
  by (auto simp: generateResponse_def Let_def)

lemma processBuffer_nonempty:
  assumes "buffers (managers s mr) sessionId = Some a" and "messages (heap s a) \<noteq> []"
  shows "processBuffer p now mr sessionId s =
           (case saveMemory p (join '' '' (messages (heap s a))) sessionId s of
              (s1, Inl e) \<Rightarrow> (s1, Inl e)
            | (s1, Inr u) \<Rightarrow> (updateBuffer a (\<lambda>b. b\<lparr>messages := []\<rparr>) s1, Inr ()))"
  using assms by (simp add: processBuffer_def getBuffer_existing)

section \<open>The recall callback, branch by branch\<close>

lemma recallCallback_guard:
  "\<not> (triggerDetected (heap s a) \<and> \<not> responseSent (heap s a)) \<Longrightarrow>
   recallCallback p mr a sessionId s = (s, Inr None)"
  unfolding recallCallback_def by (simp only: if_False)

lemma recallCallback_rejected:
  assumes "triggerDetected (heap s a)" and "\<not> responseSent (heap s a)"
    and "searchMemories p (join '' '' (collectedQuestion (heap s a))) sessionId s = (s1, Inr r)"
    and "\<not> bestMatchAccepted r"
  shows "recallCallback p mr a sessionId s =
           (updateBuffer a (\<lambda>b. b\<lparr>triggerDetected := False, collectedQuestion := []\<rparr>) s1, Inr None)"
  using assms
  by (auto simp: recallCallback_def bestMatchAccepted_def Let_def split: option.splits)

lemma recallCallback_accepted:
  assumes "triggerDetected (heap s a)" and "\<not> responseSent (heap s a)"
    and "searchMemories p (join '' '' (collectedQuestion (heap s a))) sessionId s = (s1, Inr r)"
    and "firstDocuments r = Some docs" and "withinThreshold (bestDistance r)"
  shows "recallCallback p mr a sessionId s =
           (if docs = [] then
              (updateBuffer a (\<lambda>b. b\<lparr>responseSent := True\<rparr>) s1,
               Inr (Some (MessageResponse NOTHING_REMEMBERED)))
            else
              (case generateResponse p (join '' '' (collectedQuestion (heap s a)))
                      (join [CHR 0x0A] docs) s1 of
                 (s2, Inl e) \<Rightarrow> (s2, Inl e)
               | (s2, Inr content) \<Rightarrow>
                   (updateBuffer a (\<lambda>b. b\<lparr>responseSent := True\<rparr>) s2,
                    Inr (Some (MessageResponse content)))))"
  using assms
  by (auto simp: recallCallback_def Let_def split: option.splits)

section \<open>Flushing\<close>

text \<open>
  C10. Flushing a session whose \<open>messages\<close> is empty is a complete no-op: for a session
  registered in the manager, \<open>processBuffer\<close> returns the state it was given (no request
  to the providers, no field of any buffer changed), and so does the reaper when it
  fires on such a state, whatever the time and whatever the providers would answer.
\<close>

theorem processBuffer_empty_noop:
  assumes "buffers (managers s mr) sessionId = Some a" and "messages (heap s a) = []"
  shows "processBuffer p now mr sessionId s = (s, Inr ()) \<and>
         reaperCallback p now mr sessionId s = (s, Inr ())"
  using assms by (simp add: processBuffer_def reaperCallback_def getBuffer_existing)

theorem processBuffer_empty_noop_witness:
  "buffers (managers afterFlush 0) ''s'' = Some 0 \<and>
   messages (heap afterFlush 0) = [] \<and>
   memory_store afterFlush = [(''hello.'', ''s'')] \<and>
   processBuffer failing 5000 0 ''s'' afterFlush = (afterFlush, Inr ()) \<and>
   reaperCallback failing 5000 0 ''s'' afterFlush = (afterFlush, Inr ())"
proof -
  have h1: "buffers (managers afterFlush 0) ''s'' = Some 0" by code_simp
  have h2: "messages (heap afterFlush 0) = []" by code_simp
  have h3: "memory_store afterFlush = [(''hello.'', ''s'')]" by code_simp
  from processBuffer_empty_noop [OF h1 h2, of failing 5000] h1 h2 h3 show ?thesis by blast
qed

text \<open>
  C4, as amended. When the flush's embed/store call \<open>saveMemory\<close> fails, the failure is
  what \<open>processBuffer\<close> returns and \<open>messages\<close> is left as it was: the assignment that
  clears it comes after the awaited call and is not reached. When the call succeeds the
  joined text has been stored and \<open>messages\<close> is cleared. Either way one embedding
  request, and at most one add request, was issued: nothing is retried.
\<close>

theorem processBuffer_failure_keeps_messages:
  assumes "buffers (managers s mr) sessionId = Some a"
    and "messages (heap s a) \<noteq> []"
    and "saveMemory p (join '' '' (messages (heap s a))) sessionId s = (s1, r)"
  shows "(\<forall>e. r = Inl e \<longrightarrow>
            processBuffer p now mr sessionId s = (s1, Inl e) \<and>
            messages (heap s1 a) = messages (heap s a) \<and> memory_store s1 = memory_store s) \<and>
         (r = Inr () \<longrightarrow>
            processBuffer p now mr sessionId s =
              (updateBuffer a (\<lambda>b. b\<lparr>messages := []\<rparr>) s1, Inr ()) \<and>
            memory_store s1 = memory_store s @ [(join '' '' (messages (heap s a)), sessionId)]) \<and>
         (calls s1 = calls s @ [EmbeddingsCreate (join '' '' (messages (heap s a)))] \<or>
          (\<exists>v. calls s1 = calls s @ [EmbeddingsCreate (join '' '' (messages (heap s a))),
                  CollectionAdd v sessionId (join '' '' (messages (heap s a)))]))"
proof -
  let ?text = "join '' '' (messages (heap s a))"
  have frame: "heap s1 = heap s" using saveMemory_frame [OF assms(3)] by simp
  have store: "memory_store s1 =
      (case r of Inl e \<Rightarrow> memory_store s | Inr u \<Rightarrow> memory_store s @ [(?text, sessionId)])"
    using saveMemory_store [OF assms(3)] .
  have run: "processBuffer p now mr sessionId s =
      (case r of Inl e \<Rightarrow> (s1, Inl e)
       | Inr u \<Rightarrow> (updateBuffer a (\<lambda>b. b\<lparr>messages := []\<rparr>) s1, Inr ()))"
    using assms by (simp add: processBuffer_nonempty split: sum.splits)
  show ?thesis
    using frame store run saveMemory_log [OF assms(3)] by (auto split: sum.splits)
qed

theorem processBuffer_failure_keeps_messages_witness:
  "buffers (managers afterHello 0) ''s'' = Some 0 \<and>
   messages (heap afterHello 0) = [''hello''] \<and>
   snd (saveMemory failing (join '' '' (messages (heap afterHello 0))) ''s'' afterHello)
     = Inl OpenAIError \<and>
   snd (processBuffer failing 5000 0 ''s'' afterHello) = Inl OpenAIError \<and>
   messages (heap (fst (processBuffer failing 5000 0 ''s'' afterHello)) 0) = [''hello'']"
proof -
  let ?save = "saveMemory failing (join '' '' (messages (heap afterHello 0))) ''s'' afterHello"
  have h1: "buffers (managers afterHello 0) ''s'' = Some 0" by code_simp
  have h2: "messages (heap afterHello 0) = [''hello'']" by code_simp
  then have h2': "messages (heap afterHello 0) \<noteq> []" by simp
  have h3: "?save = (fst ?save, snd ?save)" by simp
  have h4: "snd ?save = Inl OpenAIError"
    by (simp add: saveMemory_def getEmbedding_def failing_def Let_def)
  from processBuffer_failure_keeps_messages [OF h1 h2' h3, of 5000] h4
  have "processBuffer failing 5000 0 ''s'' afterHello = (fst ?save, Inl OpenAIError) \<and>
        messages (heap (fst ?save) 0) = messages (heap afterHello 0)"
    by simp
  with h1 h2 h4 show ?thesis by simp
qed

text \<open>The claim as stated fails: after a failed flush the fragment "hello" is still
  pending.\<close>

theorem processBuffer_failure_counterexample:
  "snd (processBuffer failing 5000 0 ''s'' afterHello) = Inl OpenAIError \<and>
   messages (heap (fst (processBuffer failing 5000 0 ''s'' afterHello)) 0) \<noteq> []"
  by code_simp

section \<open>The recall callback\<close>

text \<open>
  C2, as amended. When a fired recall callback passes its guard, its search returns and
  it runs to completion: if the best match is accepted (line 263), \<open>responseSent\<close> is
  true afterwards; if the best match is rejected, the window is reset
  (\<open>triggerDetected\<close> false, \<open>collectedQuestion\<close> empty) and \<open>responseSent\<close> is still
  false.
\<close>

theorem recallCallback_completion:
  assumes "triggerDetected (heap s a)" and "\<not> responseSent (heap s a)"
    and "searchMemories p (join '' '' (collectedQuestion (heap s a))) sessionId s = (s1, Inr r)"
    and "recallCallback p mr a sessionId s = (s', Inr out)"
  shows "(bestMatchAccepted r \<longrightarrow> responseSent (heap s' a)) \<and>
         (\<not> bestMatchAccepted r \<longrightarrow>
            \<not> triggerDetected (heap s' a) \<and> collectedQuestion (heap s' a) = [] \<and>
            \<not> responseSent (heap s' a))"
proof (cases "bestMatchAccepted r")
  case False
  have "heap s1 = heap s" using searchMemories_frame [OF assms(3)] by simp
  with recallCallback_rejected [OF assms(1-3) False, of mr] assms(2,4) False
  show ?thesis by (auto simp: updateBuffer_def)
next
  case True
  then obtain docs where docs: "firstDocuments r = Some docs"
    and w: "withinThreshold (bestDistance r)"
    by (auto simp: bestMatchAccepted_def)
  from recallCallback_accepted [OF assms(1-3) docs w, of mr] assms(4) True
  show ?thesis by (auto simp: updateBuffer_def split: if_splits prod.splits sum.splits)
qed

theorem recallCallback_completion_witness:
  "triggerDetected (heap windowOpen 0) \<and> \<not> responseSent (heap windowOpen 0) \<and>
   \<not> bestMatchAccepted noResults \<and>
   snd (recallCallback (answering noResults ''ok'') 0 0 ''s'' windowOpen) = Inr None \<and>
   \<not> triggerDetected (heap (fst (recallCallback (answering noResults ''ok'') 0 0 ''s'' windowOpen)) 0) \<and>
   collectedQuestion (heap (fst (recallCallback (answering noResults ''ok'') 0 0 ''s'' windowOpen)) 0) = [] \<and>
   \<not> responseSent (heap (fst (recallCallback (answering noResults ''ok'') 0 0 ''s'' windowOpen)) 0)"
proof -
  let ?p = "answering noResults ''ok''"
  let ?search = "searchMemories ?p (join '' '' (collectedQuestion (heap windowOpen 0))) ''s'' windowOpen"
  let ?run = "recallCallback ?p 0 0 ''s'' windowOpen"
  have h1: "triggerDetected (heap windowOpen 0)" by code_simp
  have h2: "\<not> responseSent (heap windowOpen 0)" by code_simp
  have h3: "?search = (fst ?search, Inr noResults)"
    by (simp add: searchMemories_def getEmbedding_def answering_def Let_def)
  have h4: "snd ?run = Inr None" by code_simp
  then have h5: "?run = (fst ?run, Inr None)" by (metis prod.collapse)
  have h6: "\<not> bestMatchAccepted noResults" by code_simp
  from recallCallback_completion [OF h1 h2 h3 h5] h1 h2 h4 h6 show ?thesis by simp
qed

text \<open>The claim as stated fails in both directions: a rejected match leaves
  \<open>responseSent\<close> false, and an answered question leaves the window open.\<close>

theorem recallCallback_completion_counterexample:
  "\<not> responseSent (heap (fst (recallCallback (answering noResults ''ok'') 0 0 ''s'' windowOpen)) 0) \<and>
   snd (recallCallback (answering (oneMatch ''doc'' (1 / 10)) ''ok'') 0 0 ''s'' windowOpen)
     = Inr (Some (MessageResponse ''ok'')) \<and>
   triggerDetected
     (heap (fst (recallCallback (answering (oneMatch ''doc'' (1 / 10)) ''ok'') 0 0 ''s'' windowOpen)) 0) \<and>
   collectedQuestion
     (heap (fst (recallCallback (answering (oneMatch ''doc'' (1 / 10)) ''ok'') 0 0 ''s'' windowOpen)) 0)
     = [''i forgot'']"
  by code_simp

text \<open>
  C3, as amended. For a recall callback that passes its guard and whose search returns:
  a first distance above the threshold delivers no message at all and resets the
  window, whatever documents came back; a first distance within the threshold, with a
  first document list that is empty, delivers the fixed "nothing remembered" message,
  and with documents it delivers the generated answer. The double 0.4 itself (and the
  rational 4/10) is within the threshold; 0.41, as a rational and as a double, is not.
\<close>

theorem recallCallback_threshold:
  assumes "triggerDetected (heap s a)" and "\<not> responseSent (heap s a)"
    and "searchMemories p (join '' '' (collectedQuestion (heap s a))) sessionId s = (s1, Inr r)"
  shows "(\<forall>d. bestDistance r = Some d \<and> SIMILARITY_THRESHOLD < d \<longrightarrow>
            recallCallback p mr a sessionId s =
              (updateBuffer a (\<lambda>b. b\<lparr>triggerDetected := False, collectedQuestion := []\<rparr>) s1,
               Inr None)) \<and>
         (\<forall>d. firstDocuments r = Some [] \<and> bestDistance r = Some d \<and>
              d \<le> SIMILARITY_THRESHOLD \<longrightarrow>
            snd (recallCallback p mr a sessionId s) =
              Inr (Some (MessageResponse NOTHING_REMEMBERED))) \<and>
         (\<forall>docs d s2 content.
            firstDocuments r = Some docs \<and> docs \<noteq> [] \<and> bestDistance r = Some d \<and>
            d \<le> SIMILARITY_THRESHOLD \<and>
            generateResponse p (join '' '' (collectedQuestion (heap s a)))
              (join [CHR 0x0A] docs) s1 = (s2, Inr content) \<longrightarrow>
            snd (recallCallback p mr a sessionId s) = Inr (Some (MessageResponse content))) \<and>
         withinThreshold (Some SIMILARITY_THRESHOLD) \<and> withinThreshold (Some (4 / 10)) \<and>
         \<not> withinThreshold (Some (41 / 100)) \<and>
         \<not> withinThreshold (Some (7385903388887613 / 18014398509481984))"
proof -
  have above: "\<forall>d. bestDistance r = Some d \<and> SIMILARITY_THRESHOLD < d \<longrightarrow>
      recallCallback p mr a sessionId s =
        (updateBuffer a (\<lambda>b. b\<lparr>triggerDetected := False, collectedQuestion := []\<rparr>) s1, Inr None)"
  proof (intro allI impI)
    fix d assume d: "bestDistance r = Some d \<and> SIMILARITY_THRESHOLD < d"
    then have "\<not> bestMatchAccepted r"
      by (simp add: bestMatchAccepted_def withinThreshold_def)
    from recallCallback_rejected [OF assms this] show "recallCallback p mr a sessionId s =
        (updateBuffer a (\<lambda>b. b\<lparr>triggerDetected := False, collectedQuestion := []\<rparr>) s1, Inr None)" .
  qed
  have empty: "\<forall>d. firstDocuments r = Some [] \<and> bestDistance r = Some d \<and>
        d \<le> SIMILARITY_THRESHOLD \<longrightarrow>
      snd (recallCallback p mr a sessionId s) = Inr (Some (MessageResponse NOTHING_REMEMBERED))"
  proof (intro allI impI)
    fix d assume d: "firstDocuments r = Some [] \<and> bestDistance r = Some d \<and>
        d \<le> SIMILARITY_THRESHOLD"
    then have w: "withinThreshold (bestDistance r)" by (simp add: withinThreshold_def)
    from d have f: "firstDocuments r = Some []" by simp
    from recallCallback_accepted [OF assms f w, of mr]
    show "snd (recallCallback p mr a sessionId s) = Inr (Some (MessageResponse NOTHING_REMEMBERED))"
      by simp
  qed
  have answer: "\<forall>docs d s2 content.
      firstDocuments r = Some docs \<and> docs \<noteq> [] \<and> bestDistance r = Some d \<and>
      d \<le> SIMILARITY_THRESHOLD \<and>
      generateResponse p (join '' '' (collectedQuestion (heap s a)))
        (join [CHR 0x0A] docs) s1 = (s2, Inr content) \<longrightarrow>
      snd (recallCallback p mr a sessionId s) = Inr (Some (MessageResponse content))"
  proof (intro allI impI)
    fix docs d s2 content
    assume d: "firstDocuments r = Some docs \<and> docs \<noteq> [] \<and> bestDistance r = Some d \<and>
      d \<le> SIMILARITY_THRESHOLD \<and>
      generateResponse p (join '' '' (collectedQuestion (heap s a)))
        (join [CHR 0x0A] docs) s1 = (s2, Inr content)"
    then have w: "withinThreshold (bestDistance r)" by (simp add: withinThreshold_def)
    from d have f: "firstDocuments r = Some docs" by simp
    from recallCallback_accepted [OF assms f w, of mr] d
    show "snd (recallCallback p mr a sessionId s) = Inr (Some (MessageResponse content))"
      by simp
  qed
  have bounds: "withinThreshold (Some SIMILARITY_THRESHOLD) \<and> withinThreshold (Some (4 / 10)) \<and>
         \<not> withinThreshold (Some (41 / 100)) \<and>
         \<not> withinThreshold (Some (7385903388887613 / 18014398509481984))"
    by (simp add: withinThreshold_def SIMILARITY_THRESHOLD_def)
  from above empty answer bounds show ?thesis by blast
qed

theorem recallCallback_threshold_witness:
  "triggerDetected (heap windowOpen 0) \<and> \<not> responseSent (heap windowOpen 0) \<and>
   bestDistance (oneMatch ''doc'' (41 / 100)) = Some (41 / 100) \<and>
   SIMILARITY_THRESHOLD < 41 / 100 \<and>
   snd (recallCallback (answering (oneMatch ''doc'' (41 / 100)) ''ok'') 0 0 ''s'' windowOpen)
     = Inr None \<and>
   snd (recallCallback (answering (distanceOnly (1 / 10)) ''ok'') 0 0 ''s'' windowOpen)
     = Inr (Some (MessageResponse NOTHING_REMEMBERED))"
proof -
  let ?p = "answering (oneMatch ''doc'' (41 / 100)) ''ok''"
  let ?search = "searchMemories ?p (join '' '' (collectedQuestion (heap windowOpen 0))) ''s'' windowOpen"
  have h1: "triggerDetected (heap windowOpen 0)" by code_simp
  have h2: "\<not> responseSent (heap windowOpen 0)" by code_simp
  have h3: "?search = (fst ?search, Inr (oneMatch ''doc'' (41 / 100)))"
    by (simp add: searchMemories_def getEmbedding_def answering_def Let_def)
  have h4: "bestDistance (oneMatch ''doc'' (41 / 100)) = Some (41 / 100)"
    by (simp add: bestDistance_def oneMatch_def)
  have h5: "SIMILARITY_THRESHOLD < 41 / 100" by (simp add: SIMILARITY_THRESHOLD_def)
  have h6: "snd (recallCallback (answering (distanceOnly (1 / 10)) ''ok'') 0 0 ''s'' windowOpen)
     = Inr (Some (MessageResponse NOTHING_REMEMBERED))"
    by code_simp
  from recallCallback_threshold [OF h1 h2 h3, of 0]
  have "\<forall>d. bestDistance (oneMatch ''doc'' (41 / 100)) = Some d \<and> SIMILARITY_THRESHOLD < d \<longrightarrow>
      recallCallback ?p 0 0 ''s'' windowOpen =
        (updateBuffer 0 (\<lambda>b. b\<lparr>triggerDetected := False, collectedQuestion := []\<rparr>) (fst ?search),
         Inr None)"
    by (rule conjunct1)
  with h4 h5 have "recallCallback ?p 0 0 ''s'' windowOpen =
        (updateBuffer 0 (\<lambda>b. b\<lparr>triggerDetected := False, collectedQuestion := []\<rparr>) (fst ?search),
         Inr None)"
    by blast
  then have "snd (recallCallback ?p 0 0 ''s'' windowOpen) = Inr None" by simp
  with h1 h2 h4 h5 h6 show ?thesis by blast
qed

text \<open>The claim as stated fails: a best distance of 0.41 with a non-empty document list
  delivers no message, and so does a response with no documents and no distances.\<close>

theorem recallCallback_threshold_counterexample:
  "snd (recallCallback (answering (oneMatch ''doc'' (41 / 100)) ''ok'') 0 0 ''s'' windowOpen)
     = Inr None \<and>
   snd (recallCallback (answering \<lparr>documents = [[]], distances = Some [[]]\<rparr> ''ok'') 0 0 ''s''
          windowOpen)
     = Inr None"
  by code_simp

text \<open>
  C5. The recall callback acts only when \<open>triggerDetected\<close> is true and \<open>responseSent\<close>
  is false: otherwise it returns the state it was given and no response. After a firing
  that ran to completion, a second firing on the same buffer, whatever the providers
  would answer, is such a no-op. Two firings in a row never both deliver a response.
\<close>

theorem recallCallback_second_firing:
  "(\<not> (triggerDetected (heap s a) \<and> \<not> responseSent (heap s a)) \<longrightarrow>
      recallCallback p mr a sessionId s = (s, Inr None)) \<and>
   (\<forall>s' out. recallCallback p mr a sessionId s = (s', Inr out) \<longrightarrow>
      recallCallback p' mr a sessionId s' = (s', Inr None)) \<and>
   (\<forall>s' out s'' out'.
      recallCallback p mr a sessionId s = (s', out) \<and>
      recallCallback p' mr a sessionId s' = (s'', out') \<longrightarrow>
      \<not> (delivered out \<and> delivered out'))"
proof -
  have guard: "\<not> (triggerDetected (heap s a) \<and> \<not> responseSent (heap s a)) \<longrightarrow>
      recallCallback p mr a sessionId s = (s, Inr None)"
    using recallCallback_guard by blast
  have closed: "\<not> (triggerDetected (heap s' a) \<and> \<not> responseSent (heap s' a))"
    if run: "recallCallback p mr a sessionId s = (s', Inr out)" for s' out
  proof (cases "triggerDetected (heap s a) \<and> \<not> responseSent (heap s a)")
    case False
    with recallCallback_guard [OF False, of p mr sessionId] run show ?thesis by simp
  next
    case True
    then have g1: "triggerDetected (heap s a)" and g2: "\<not> responseSent (heap s a)" by auto
    obtain s1 res where search:
      "searchMemories p (join '' '' (collectedQuestion (heap s a))) sessionId s = (s1, res)"
      by (cases "searchMemories p (join '' '' (collectedQuestion (heap s a))) sessionId s")
    show ?thesis
    proof (cases res)
      case (Inl e)
      with search g1 g2 run show ?thesis by (simp add: recallCallback_def Let_def)
    next
      case (Inr r)
      with search have search': 
        "searchMemories p (join '' '' (collectedQuestion (heap s a))) sessionId s = (s1, Inr r)"
        by simp
      show ?thesis
      proof (cases "bestMatchAccepted r")
        case False
        from recallCallback_rejected [OF g1 g2 search' False, of mr] run
        show ?thesis by (auto simp: updateBuffer_def)
      next
        case True
        then obtain docs where docs: "firstDocuments r = Some docs"
          and w: "withinThreshold (bestDistance r)"
          by (auto simp: bestMatchAccepted_def)
        from recallCallback_accepted [OF g1 g2 search' docs w, of mr] run
        show ?thesis by (auto simp: updateBuffer_def split: if_splits prod.splits sum.splits)
      qed
    qed
  qed
  have second: "\<forall>s' out. recallCallback p mr a sessionId s = (s', Inr out) \<longrightarrow>
      recallCallback p' mr a sessionId s' = (s', Inr None)"
    using closed recallCallback_guard by blast
  have once: "\<forall>s' out s'' out'.
      recallCallback p mr a sessionId s = (s', out) \<and>
      recallCallback p' mr a sessionId s' = (s'', out') \<longrightarrow>
      \<not> (delivered out \<and> delivered out')"
  proof (intro allI impI)
    fix s' out s'' out'
    assume runs: "recallCallback p mr a sessionId s = (s', out) \<and>
      recallCallback p' mr a sessionId s' = (s'', out')"
    show "\<not> (delivered out \<and> delivered out')"
    proof (cases out)
      case (Inl e)
      then show ?thesis by (simp add: delivered_def)
    next
      case (Inr x)
      with runs second have "out' = Inr None" by auto
      then show ?thesis by (simp add: delivered_def)
    qed
  qed
  from guard second once show ?thesis by blast
qed

theorem recallCallback_second_firing_witness:
  "snd (recallCallback (answering (oneMatch ''doc'' (1 / 10)) ''ok'') 0 0 ''s'' windowOpen)
     = Inr (Some (MessageResponse ''ok'')) \<and>
   recallCallback (answering (oneMatch ''doc'' (1 / 10)) ''again'') 0 0 ''s''
     (fst (recallCallback (answering (oneMatch ''doc'' (1 / 10)) ''ok'') 0 0 ''s'' windowOpen))
   = (fst (recallCallback (answering (oneMatch ''doc'' (1 / 10)) ''ok'') 0 0 ''s'' windowOpen),
      Inr None)"
proof -
  let ?run = "recallCallback (answering (oneMatch ''doc'' (1 / 10)) ''ok'') 0 0 ''s'' windowOpen"
  have h1: "snd ?run = Inr (Some (MessageResponse ''ok''))" by code_simp
  then have h2: "?run = (fst ?run, Inr (Some (MessageResponse ''ok'')))" by (metis prod.collapse)
  from recallCallback_second_firing
    [of windowOpen 0 "answering (oneMatch ''doc'' (1 / 10)) ''ok''" 0 "''s''"
        "answering (oneMatch ''doc'' (1 / 10)) ''again''"] h2
  have "recallCallback (answering (oneMatch ''doc'' (1 / 10)) ''again'') 0 0 ''s'' (fst ?run)
      = (fst ?run, Inr None)"
    by blast
  with h1 show ?thesis by simp
qed

section \<open>Ingestion\<close>

lemma checkRecallQuestion_plain:
  "\<not> hasTriggerPhrase text \<Longrightarrow> checkRecallQuestion now mr a sessionId text s = s"
  by (simp add: checkRecallQuestion_def)


lemma toLowerCase_hello: "toLowerCase ''hello'' = ''hello''"
  by code_simp

lemma toLowerCase_world: "toLowerCase ''world.'' = ''world.''"
  by code_simp

lemma toLowerCase_next: "toLowerCase ''next'' = ''next''"
  by code_simp

lemma fragment_hello: "\<not> endsSentence ''hello'' \<and> \<not> hasTriggerPhrase ''hello''"
  by code_simp

lemma fragment_world: "endsSentence ''world.'' \<and> \<not> hasTriggerPhrase ''world.''"
  by code_simp

lemma fragment_next: "\<not> endsSentence ''next'' \<and> \<not> hasTriggerPhrase ''next''"
  by code_simp

lemmas webhook_unfold =
  webhook_def request_def newMemoryManager_def getBuffer_def processSegment_def
  updateBuffer_def processBuffer_def saveMemory_def getEmbedding_def setTimeout_def
  newBuffer_def Let_def

text \<open>For a session id that is not empty and not a name inherited from
  \<^verbatim>\<open>Object.prototype\<close>, in any state: the request with the fragments "hello", "world.",
  "next" issues exactly one flush, of the text "hello world.", and nothing else; when the
  providers accept it, the text is stored under the session id, the session's buffer is
  left with \<open>messages = ["next"]\<close>, the reaper is scheduled and the handler answers
  \<open>success\<close>.\<close>

lemma webhook_hello_world_next:
  assumes "sessionId \<noteq> []" and "sessionId \<notin> set OBJECT_PROTOTYPE_KEYS"
  shows "(calls (fst (webhook p now (request sessionId [''hello'', ''world.'', ''next'']) s))
            = calls s @ [EmbeddingsCreate ''hello world.''] \<or>
          (\<exists>v. calls (fst (webhook p now (request sessionId [''hello'', ''world.'', ''next'']) s))
            = calls s @ [EmbeddingsCreate ''hello world.'',
                CollectionAdd v sessionId ''hello world.''])) \<and>
         (\<forall>v. embeddings_create p (calls s @ [EmbeddingsCreate ''hello world.'']) = Inr v \<and>
            collection_add p (calls s @ [EmbeddingsCreate ''hello world.'',
              CollectionAdd v sessionId ''hello world.'']) = Inr () \<longrightarrow>
            webhook p now (request sessionId [''hello'', ''world.'', ''next'']) s =
              (s\<lparr>heap := (heap s)(nextAddr s := (newBuffer now)\<lparr>messages := [''next'']\<rparr>),
                 nextAddr := Suc (nextAddr s),
                 managers := (managers s)
                   (nextManager s := \<lparr>buffers = [sessionId \<mapsto> nextAddr s]\<rparr>),
                 nextManager := Suc (nextManager s),
                 pending := pending s @
                   [\<lparr>due = now + BUFFER_TIMEOUT,
                     callback = ReaperCallback (nextManager s) sessionId\<rparr>],
                 calls := calls s @ [EmbeddingsCreate ''hello world.'',
                   CollectionAdd v sessionId ''hello world.''],
                 memory_store := memory_store s @ [(''hello world.'', sessionId)]\<rparr>,
               Inr (StatusResponse ''success'')))"
proof -
  have once: "calls (fst (webhook p now (request sessionId [''hello'', ''world.'', ''next'']) s))
            = calls s @ [EmbeddingsCreate ''hello world.''] \<or>
          (\<exists>v. calls (fst (webhook p now (request sessionId [''hello'', ''world.'', ''next'']) s))
            = calls s @ [EmbeddingsCreate ''hello world.'',
                CollectionAdd v sessionId ''hello world.''])"
    using assms
    by (auto simp: webhook_unfold toLowerCase_hello toLowerCase_world toLowerCase_next
        fragment_hello fragment_world fragment_next checkRecallQuestion_plain
        split: sum.splits)
  have stored: "webhook p now (request sessionId [''hello'', ''world.'', ''next'']) s =
              (s\<lparr>heap := (heap s)(nextAddr s := (newBuffer now)\<lparr>messages := [''next'']\<rparr>),
                 nextAddr := Suc (nextAddr s),
                 managers := (managers s)
                   (nextManager s := \<lparr>buffers = [sessionId \<mapsto> nextAddr s]\<rparr>),
                 nextManager := Suc (nextManager s),
                 pending := pending s @
                   [\<lparr>due = now + BUFFER_TIMEOUT,
                     callback = ReaperCallback (nextManager s) sessionId\<rparr>],
                 calls := calls s @ [EmbeddingsCreate ''hello world.'',
                   CollectionAdd v sessionId ''hello world.''],
                 memory_store := memory_store s @ [(''hello world.'', sessionId)]\<rparr>,
               Inr (StatusResponse ''success''))"
    if "embeddings_create p (calls s @ [EmbeddingsCreate ''hello world.'']) = Inr v"
      and "collection_add p (calls s @ [EmbeddingsCreate ''hello world.'',
              CollectionAdd v sessionId ''hello world.'']) = Inr ()" for v
    using assms that
    by (simp add: webhook_unfold toLowerCase_hello toLowerCase_world toLowerCase_next
        fragment_hello fragment_world fragment_next checkRecallQuestion_plain)
  from once stored show ?thesis by blast
qed

text \<open>The same request on a session id that names an inherited property, in any state:
  the registry lookup answers the inherited value, no buffer is created, the first
  \<^verbatim>\<open>push\<close> throws, and the state is left with nothing but the new, empty manager.\<close>

lemma webhook_inherited_key:
  assumes "sessionId \<noteq> []" and "sessionId \<in> set OBJECT_PROTOTYPE_KEYS"
  shows "webhook p now (request sessionId (segment # rest)) s =
           (s\<lparr>managers := (managers s)(nextManager s := \<lparr>buffers = Map.empty\<rparr>),
              nextManager := Suc (nextManager s)\<rparr>,
            Inl TypeError)"
  using assms
  by (simp add: webhook_def request_def newMemoryManager_def getBuffer_def Let_def)

text \<open>
  C6 (the code departs from the claim). The request with the fragments "hello",
  "world.", "next" for the session id "constructor": \<^verbatim>\<open>this.buffers["constructor"]\<close> is
  the constructor every object inherits, so \<open>getBuffer\<close> creates no buffer and returns
  it, and the handler throws at the first \<^verbatim>\<open>push\<close>. Nothing is flushed or stored, no
  buffer holds "next", and no reaper is scheduled.
\<close>

theorem webhook_constructor_session:
  "snd (webhook (answering noResults ''ok'') 0
          (request ''constructor'' [''hello'', ''world.'', ''next'']) initial) = Inl TypeError \<and>
   calls (fst (webhook (answering noResults ''ok'') 0
          (request ''constructor'' [''hello'', ''world.'', ''next'']) initial)) = [] \<and>
   memory_store (fst (webhook (answering noResults ''ok'') 0
          (request ''constructor'' [''hello'', ''world.'', ''next'']) initial)) = [] \<and>
   pending (fst (webhook (answering noResults ''ok'') 0
          (request ''constructor'' [''hello'', ''world.'', ''next'']) initial)) = [] \<and>
   buffers (managers (fst (webhook (answering noResults ''ok'') 0
          (request ''constructor'' [''hello'', ''world.'', ''next'']) initial)) 0)
     ''constructor'' = None \<and>
   nextAddr (fst (webhook (answering noResults ''ok'') 0
          (request ''constructor'' [''hello'', ''world.'', ''next'']) initial)) = 0"
  by code_simp



section \<open>The registry across requests\<close>

text \<open>Within one manager the registry behaves as a registry: every later reference
  returns what the first reference returned (the buffer it created, for a session id
  that is not an inherited name), and no entry is removed.\<close>

lemma getBuffer_idempotent:
  assumes "getBuffer now mr sessionId s = (s1, r)"
  shows "getBuffer now' mr sessionId s1 = (s1, r)"
  using assms by (auto simp: getBuffer_def Let_def split: option.splits if_splits)

lemma getBuffer_keeps_entries:
  assumes "getBuffer now mr sessionId s = (s1, r)" and "buffers (managers s mr') k = Some b"
  shows "buffers (managers s1 mr') k = Some b"
  using assms by (auto simp: getBuffer_def Let_def split: option.splits if_splits)

text \<open>The handler, however, starts from a manager of its own, whose registry is empty.\<close>

lemma newMemoryManager_empty:
  assumes "newMemoryManager s = (s1, mr)"
  shows "buffers (managers s1 mr) = Map.empty \<and> mr = nextManager s"
  using assms by (auto simp: newMemoryManager_def Let_def)

text \<open>
  C1 (the code departs from the claim). Two requests for the same session, "hello" at
  time 0 and "world" at time 1000: each gets a manager and a buffer of its own. The
  second request does not see the pending "hello"; its buffer holds "world" alone, at
  another address.
\<close>

theorem registry_is_per_request:
  "buffers (managers (run (answering noResults ''ok'')
      [Post 0 (request ''s'' [''hello'']), Post 1000 (request ''s'' [''world''])] initial) 0) ''s''
     = Some 0 \<and>
   buffers (managers (run (answering noResults ''ok'')
      [Post 0 (request ''s'' [''hello'']), Post 1000 (request ''s'' [''world''])] initial) 1) ''s''
     = Some 1 \<and>
   messages (heap (run (answering noResults ''ok'')
      [Post 0 (request ''s'' [''hello'']), Post 1000 (request ''s'' [''world''])] initial) 0)
     = [''hello''] \<and>
   messages (heap (run (answering noResults ''ok'')
      [Post 0 (request ''s'' [''hello'']), Post 1000 (request ''s'' [''world''])] initial) 1)
     = [''world'']"
  by code_simp

text \<open>What lines 250 to 286 do on one buffer: with no trigger phrase nothing changes; with
  a trigger phrase and the window closed, the window is opened and one timer is
  scheduled; with a trigger phrase and the window open, the fragment is appended to the
  question and no timer is scheduled.\<close>

lemma checkRecallQuestion_window:
  "(\<not> hasTriggerPhrase text \<longrightarrow> checkRecallQuestion now mr a sessionId text s = s) \<and>
   (hasTriggerPhrase text \<and> \<not> triggerDetected (heap s a) \<longrightarrow>
      checkRecallQuestion now mr a sessionId text s =
        s\<lparr>heap := (heap s)
             (a := (heap s a)\<lparr>triggerDetected := True, triggerTime := now,
                               collectedQuestion := [text]\<rparr>),
          pending := pending s @
             [\<lparr>due = now + QUESTION_COLLECTION_TIMEOUT,
               callback = RecallCallback mr a sessionId\<rparr>]\<rparr>) \<and>
   (hasTriggerPhrase text \<and> triggerDetected (heap s a) \<longrightarrow>
      checkRecallQuestion now mr a sessionId text s =
        s\<lparr>heap := (heap s)
             (a := (heap s a)\<lparr>collectedQuestion := collectedQuestion (heap s a) @ [text]\<rparr>)\<rparr>)"
  by (simp add: checkRecallQuestion_def setTimeout_def updateBuffer_def)

text \<open>
  C8 (the code departs from the claim). Two requests for the same session, each with a
  fragment that contains a trigger phrase, 500 ms apart: the second request finds no
  open window in its own fresh buffer, so it opens a second window and schedules a
  second recall timer while the first is still pending; the second fragment is not
  appended to the first question.
\<close>

theorem two_windows_for_one_session:
  "pending (run (answering noResults ''ok'')
      [Post 0 (request ''s'' [''i forgot'']), Post 500 (request ''s'' [''i forgot the name''])]
      initial)
     = [\<lparr>due = 2000, callback = RecallCallback 0 0 ''s''\<rparr>,
        \<lparr>due = 5000, callback = ReaperCallback 0 ''s''\<rparr>,
        \<lparr>due = 2500, callback = RecallCallback 1 1 ''s''\<rparr>,
        \<lparr>due = 5500, callback = ReaperCallback 1 ''s''\<rparr>] \<and>
   triggerDetected (heap (run (answering noResults ''ok'')
      [Post 0 (request ''s'' [''i forgot'']), Post 500 (request ''s'' [''i forgot the name''])]
      initial) 0) \<and>
   triggerDetected (heap (run (answering noResults ''ok'')
      [Post 0 (request ''s'' [''i forgot'']), Post 500 (request ''s'' [''i forgot the name''])]
      initial) 1) \<and>
   collectedQuestion (heap (run (answering noResults ''ok'')
      [Post 0 (request ''s'' [''i forgot'']), Post 500 (request ''s'' [''i forgot the name''])]
      initial) 0) = [''i forgot''] \<and>
   collectedQuestion (heap (run (answering noResults ''ok'')
      [Post 0 (request ''s'' [''i forgot'']), Post 500 (request ''s'' [''i forgot the name''])]
      initial) 1) = [''i forgot the name'']"
  by code_simp

text \<open>The reaper's own test is the one the claim gives: it flushes exactly when
  \<open>now - lastActivity\<close> has reached \<open>BUFFER_TIMEOUT\<close>.\<close>

lemma reaperCallback_test:
  assumes "buffers (managers s mr) sessionId = Some a"
  shows "reaperCallback p now mr sessionId s =
           (if 5000 \<le> now - lastActivity (heap s a) then processBuffer p now mr sessionId s
            else (s, Inr ()))"
  using assms by (simp add: reaperCallback_def getBuffer_existing BUFFER_TIMEOUT_def)

text \<open>
  C9 (the code departs from the claim). A request with "hello" at time 0 and a request
  with "again" for the same session at time 3000; at time 5000 the first request's
  reaper (the pending timer at index 0) fires. The later fragment went to another
  manager's buffer, so the reaper still sees \<open>lastActivity = 0\<close> and flushes "hello": it
  is not superseded.
\<close>

theorem reaper_not_superseded:
  "pending (run (answering noResults ''ok'')
      [Post 0 (request ''s'' [''hello'']), Post 3000 (request ''s'' [''again''])] initial) ! 0
     = \<lparr>due = 5000, callback = ReaperCallback 0 ''s''\<rparr> \<and>
   memory_store (run (answering noResults ''ok'')
      [Post 0 (request ''s'' [''hello'']), Post 3000 (request ''s'' [''again''])] initial) = [] \<and>
   memory_store (run (answering noResults ''ok'')
      [Post 0 (request ''s'' [''hello'']), Post 3000 (request ''s'' [''again'']), Timeout 5000 0]
      initial) = [(''hello'', ''s'')] \<and>
   lastActivity (heap (run (answering noResults ''ok'')
      [Post 0 (request ''s'' [''hello'']), Post 3000 (request ''s'' [''again''])] initial) 0) = 0 \<and>
   lastActivity (heap (run (answering noResults ''ok'')
      [Post 0 (request ''s'' [''hello'']), Post 3000 (request ''s'' [''again''])] initial) 1) = 3000"
  by code_simp

end
